theory Spec2Isabelle
  imports Complex_Main "HOL-Library.Sublist"
begin

section \<open>Contact-form mailer: the submission handler and the verification gate\<close>

text \<open>
  The development embeds the production variant of the repository: the reCAPTCHA
  service (\<^verbatim>\<open>src/recaptcha/recaptcha.service.ts\<close>), the controller with sanitisation
  and \<^verbatim>\<open>Promise.allSettled\<close> (\<^verbatim>\<open>src/mailer/mailer.controller.ts\<close>, the variant with the
  \<^verbatim>\<open>ValidationPipe\<close>) and the data-transfer class with field constraints
  (\<^verbatim>\<open>src/mailer/mailer.dto.ts\<close>, first definition). The controller marked
  "for testing only" is embedded only as far as its operator message goes.

  Conventions.
  \<^item> A JavaScript string is a \<^typ>\<open>string\<close>; a \<^typ>\<open>char\<close> stands for one code unit in the
    range 0..255. Code units above 255 are outside the model.
  \<^item> A property that may be \<^verbatim>\<open>undefined\<close> or \<^verbatim>\<open>null\<close> is a \<^typ>\<open>string option\<close>;
    both read as \<^term>\<open>None\<close>. Values of another JavaScript type than the declared one
    are outside the model.
  \<^item> A score is a \<^typ>\<open>real\<close>: JSON carries finite decimal numbers only, and on those
    the comparison of doubles is the comparison of reals.
  \<^item> Every effect is an \<open>event\<close>; a function with effects returns its value together
    with the events in the order the code issues them.
  \<^item> The collaborators that are not code of the repository are parameters: the HTTP
    client, the mail client, the configuration, and the address check of the
    validation library.
\<close>

subsection \<open>Strings\<close>

definition nl :: string where
  "nl = [CHR 0x0A]"

text \<open>White space of \<^verbatim>\<open>String.prototype.trim\<close> and of the regular expression class
  \<^verbatim>\<open>\s\<close> among the code units below 256: TAB, LF, VT, FF, CR, SPACE, NBSP.\<close>

definition isWhiteSpace :: "char \<Rightarrow> bool" where
  "isWhiteSpace c = (c \<in> set [CHR 0x09, CHR 0x0A, CHR 0x0B, CHR 0x0C, CHR 0x0D, CHR 0x20, CHR 0xA0])"

definition trim :: "string \<Rightarrow> string" where
  "trim s = rev (dropWhile isWhiteSpace (rev (dropWhile isWhiteSpace s)))"

text \<open>\<^verbatim>\<open>String.prototype.toLowerCase\<close> on code units below 256: A..Z and the
  Latin-1 capitals 0xC0..0xDE without the multiplication sign 0xD7 move up by 32.\<close>

definition toLowerCase_char :: "char \<Rightarrow> char" where
  "toLowerCase_char c =
     (let n = (of_char c :: nat)
      in if (65 \<le> n \<and> n \<le> 90) \<or> (192 \<le> n \<and> n \<le> 222 \<and> n \<noteq> 215)
         then char_of (n + 32) else c)"

definition toLowerCase :: "string \<Rightarrow> string" where
  "toLowerCase s = map toLowerCase_char s"

text \<open>\<^verbatim>\<open>s.substring(0, n)\<close> is \<^term>\<open>take n s\<close>. A template literal renders an
  \<^verbatim>\<open>undefined\<close> value as the word \<^verbatim>\<open>undefined\<close>.\<close>

definition render :: "string option \<Rightarrow> string" where
  "render v = (case v of None \<Rightarrow> ''undefined'' | Some s \<Rightarrow> s)"

text \<open>Truthiness of an optional string: \<^verbatim>\<open>undefined\<close>, \<^verbatim>\<open>null\<close> and the empty
  string are falsy.\<close>

definition truthy :: "string option \<Rightarrow> bool" where
  "truthy v = (case v of None \<Rightarrow> False | Some s \<Rightarrow> s \<noteq> [])"

subsection \<open>Events and exceptions\<close>

record requestBody =
  event_token :: string
  event_siteKey :: "string option"
  event_expectedAction :: string

record EmailMessage =
  msg_to :: "string option"
  msg_from :: string
  msg_subject :: string
  msg_text :: string

text \<open>What \<^verbatim>\<open>firstValueFrom(httpService.post(...))\<close> may reject with: an error of the
  HTTP client, with the response (status and data) when the server answered.\<close>

datatype exn =
    BadRequestException "string list"
  | UnauthorizedException string
  | HttpException string nat
  | Error string
  | TypeError
  | AxiosError "(nat \<times> string) option"

text \<open>The records written to the console by the service, field by field.\<close>

datatype console_record =
    TokenInvalid "string option" string
  | ActionMismatch string string
  | ScoreTooLow real real "string list option"
  | VerificationSuccessful real string string
  | ErrorVerifying exn
  | ApiError "nat option" "string option"

datatype event =
    HttpPost requestBody
  | SendMail EmailMessage
  | Console console_record
  | LoggerLog string
  | LoggerWarn string
  | LoggerError string

subsection \<open>The verification gate: \<^verbatim>\<open>RecaptchaService\<close>\<close>

record TokenProperties =
  valid :: bool
  invalidReason :: "string option"
  hostname :: string
  action :: string

record RiskAnalysis =
  score :: "real option"
  reasons :: "string list"

record RecaptchaEnterpriseResponse =
  tokenProperties :: "TokenProperties option"
  riskAnalysis :: "RiskAnalysis option"

text \<open>The outcome of the POST: rejected with an error, or resolved with \<^verbatim>\<open>data\<close>
  (\<^term>\<open>None\<close> when the body is \<^verbatim>\<open>null\<close> or \<^verbatim>\<open>undefined\<close>, on which a property read
  raises a \<^verbatim>\<open>TypeError\<close>).\<close>

datatype http_result =
    Rejected exn
  | Resolved "RecaptchaEnterpriseResponse option"

datatype settled = Fulfilled | SendRejected string

record env =
  RECAPTCHA_SITE_KEY :: "string option"
  ADMIN_EMAIL :: "string option"
  httpService_post :: "requestBody \<Rightarrow> http_result"
  mailerService_sendMail :: "EmailMessage \<Rightarrow> settled"

text \<open>\<^verbatim>\<open>expectedAction || 'submit'\<close>.\<close>

definition defaultAction :: "string option \<Rightarrow> string" where
  "defaultAction expectedAction =
     (case expectedAction of None \<Rightarrow> ''submit'' | Some a \<Rightarrow> if a = [] then ''submit'' else a)"

definition mkRequestBody :: "env \<Rightarrow> string \<Rightarrow> string option \<Rightarrow> requestBody" where
  "mkRequestBody e token expectedAction =
     \<lparr> event_token = token,
       event_siteKey = RECAPTCHA_SITE_KEY e,
       event_expectedAction = defaultAction expectedAction \<rparr>"

text \<open>\<^verbatim>\<open>data.riskAnalysis?.score\<close>, \<^verbatim>\<open>data.riskAnalysis?.score ?? 0\<close> and
  \<^verbatim>\<open>data.riskAnalysis?.reasons\<close>.\<close>

definition riskScore :: "RecaptchaEnterpriseResponse \<Rightarrow> real option" where
  "riskScore d = (case riskAnalysis d of None \<Rightarrow> None | Some r \<Rightarrow> score r)"

definition scoreOf :: "RecaptchaEnterpriseResponse \<Rightarrow> real" where
  "scoreOf d = (case riskScore d of None \<Rightarrow> 0 | Some s \<Rightarrow> s)"

definition reasonsOf :: "RecaptchaEnterpriseResponse \<Rightarrow> string list option" where
  "reasonsOf d = map_option reasons (riskAnalysis d)"

text \<open>The checks of the \<^verbatim>\<open>try\<close> block after the response has arrived.\<close>

definition checkResponse ::
  "string \<Rightarrow> string option \<Rightarrow> real \<Rightarrow> RecaptchaEnterpriseResponse \<Rightarrow> bool \<times> event list" where
  "checkResponse token expectedAction minScore d =
     (case tokenProperties d of
        None \<Rightarrow> (False, [Console (TokenInvalid None (take 20 token @ ''...''))])
      | Some tp \<Rightarrow>
          if \<not> valid tp then
            (False, [Console (TokenInvalid (invalidReason tp) (take 20 token @ ''...''))])
          else if truthy expectedAction \<and> Some (action tp) \<noteq> expectedAction then
            (False, [Console (ActionMismatch (render expectedAction) (action tp))])
          else if scoreOf d < minScore then
            (False, [Console (ScoreTooLow (scoreOf d) minScore (reasonsOf d))])
          else
            (True, [Console (VerificationSuccessful (scoreOf d) (action tp) (hostname tp))]))"

text \<open>The \<^verbatim>\<open>try\<close> block of \<^verbatim>\<open>verify\<close>: \<^term>\<open>Inl\<close> is an exception raised inside it.
  The minimum score is always passed; its default 0.5 is the value the handler passes.\<close>

definition verify_try ::
  "env \<Rightarrow> string \<Rightarrow> string option \<Rightarrow> real \<Rightarrow> (exn + bool) \<times> event list" where
  "verify_try e token expectedAction minScore =
     (if token = [] then
        (Inl (HttpException ''reCAPTCHA token is required'' 400), [])
      else
        let rb = mkRequestBody e token expectedAction
        in case httpService_post e rb of
             Rejected err \<Rightarrow> (Inl err, [HttpPost rb])
           | Resolved None \<Rightarrow> (Inl TypeError, [HttpPost rb])
           | Resolved (Some d) \<Rightarrow>
               (case checkResponse token expectedAction minScore d of
                  (b, evs) \<Rightarrow> (Inr b, HttpPost rb # evs)))"

text \<open>The \<^verbatim>\<open>catch\<close> block: it logs the error, logs \<^verbatim>\<open>error.response\<close> when that is
  truthy, and returns \<^verbatim>\<open>false\<close>. An \<^verbatim>\<open>HttpException\<close> built from a non-empty string
  keeps that string as its \<^verbatim>\<open>response\<close>, which has no \<^verbatim>\<open>status\<close> and no \<^verbatim>\<open>data\<close>.\<close>

definition verify_catch :: "exn \<Rightarrow> event list" where
  "verify_catch err =
     Console (ErrorVerifying err) #
     (case err of
        AxiosError (Some (st, dat)) \<Rightarrow> [Console (ApiError (Some st) (Some dat))]
      | HttpException m st \<Rightarrow> (if m \<noteq> [] then [Console (ApiError None None)] else [])
      | _ \<Rightarrow> [])"

definition verify :: "env \<Rightarrow> string \<Rightarrow> string option \<Rightarrow> real \<Rightarrow> bool \<times> event list" where
  "verify e token expectedAction minScore =
     (case verify_try e token expectedAction minScore of
        (Inl err, evs) \<Rightarrow> (False, evs @ verify_catch err)
      | (Inr b, evs) \<Rightarrow> (b, evs))"

subsection \<open>The data-transfer class \<^verbatim>\<open>MailerDto\<close> and the \<^verbatim>\<open>ValidationPipe\<close>\<close>

text \<open>
  The object the controller receives. The class declares seven properties; the
  controller also reads a property \<^verbatim>\<open>message\<close>, which the class does not declare, so the
  record has a slot for it. The same record is the JSON body of the request.
\<close>

record MailerDto =
  firstName :: "string option"
  lastName :: "string option"
  email :: "string option"
  phone :: "string option"
  petType :: "string option"
  dates :: "string option"
  recaptchaToken :: "string option"
  message :: "string option"

text \<open>The decorators of the validation library, on optional strings:
  \<^verbatim>\<open>IsNotEmpty\<close> (not \<^verbatim>\<open>''\<close>, \<^verbatim>\<open>null\<close>, \<^verbatim>\<open>undefined\<close>), \<^verbatim>\<open>IsString\<close>,
  \<^verbatim>\<open>MaxLength\<close>, \<^verbatim>\<open>Matches\<close> with the pattern of the phone number
  (one or more of digit, white space, \<^verbatim>\<open>-\<close>, \<^verbatim>\<open>+\<close>, \<^verbatim>\<open>(\<close>, \<^verbatim>\<open>)\<close>), and
  \<^verbatim>\<open>IsEmail\<close>, whose address check is the parameter \<open>isEmail\<close>.\<close>

definition IsNotEmpty :: "string option \<Rightarrow> bool" where
  "IsNotEmpty v = (case v of None \<Rightarrow> False | Some s \<Rightarrow> s \<noteq> [])"

definition IsString :: "string option \<Rightarrow> bool" where
  "IsString v = (case v of None \<Rightarrow> False | Some s \<Rightarrow> True)"

definition MaxLength :: "nat \<Rightarrow> string option \<Rightarrow> bool" where
  "MaxLength n v = (case v of None \<Rightarrow> False | Some s \<Rightarrow> length s \<le> n)"

definition phoneChar :: "char \<Rightarrow> bool" where
  "phoneChar c = (c \<in> set ''0123456789'' \<or> isWhiteSpace c \<or> c \<in> set ''-+()'')"

definition MatchesPhone :: "string option \<Rightarrow> bool" where
  "MatchesPhone v = (case v of None \<Rightarrow> False | Some s \<Rightarrow> s \<noteq> [] \<and> list_all phoneChar s)"

definition IsEmail :: "(string \<Rightarrow> bool) \<Rightarrow> string option \<Rightarrow> bool" where
  "IsEmail isEmail v = (case v of None \<Rightarrow> False | Some s \<Rightarrow> isEmail s)"

text \<open>One constraint: its message when it is violated.\<close>

definition constraint :: "bool \<Rightarrow> string \<Rightarrow> string list" where
  "constraint ok msg = (if ok then [] else [msg])"

text \<open>The \<^verbatim>\<open>Transform\<close> decorators: \<^verbatim>\<open>value?.trim()\<close>, and
  \<^verbatim>\<open>value?.trim().toLowerCase()\<close> on the email. The token has none.\<close>

definition transformDto :: "MailerDto \<Rightarrow> MailerDto" where
  "transformDto b =
     b\<lparr> firstName := map_option trim (firstName b),
        lastName := map_option trim (lastName b),
        email := map_option (\<lambda>s. toLowerCase (trim s)) (email b),
        phone := map_option trim (phone b),
        petType := map_option trim (petType b),
        dates := map_option trim (dates b) \<rparr>"

text \<open>The messages of all violated constraints, property by property as the class lists
  them. The library fixes the order inside the list; no theorem below relies on it.\<close>

definition validateDto :: "(string \<Rightarrow> bool) \<Rightarrow> MailerDto \<Rightarrow> string list" where
  "validateDto isEmail d =
     constraint (IsNotEmpty (firstName d)) ''First name is required'' @
     constraint (IsString (firstName d)) ''First name must be a string'' @
     constraint (MaxLength 50 (firstName d)) ''First name cannot exceed 50 characters'' @
     constraint (IsNotEmpty (lastName d)) ''Last name is required'' @
     constraint (IsString (lastName d)) ''Last name must be a string'' @
     constraint (MaxLength 50 (lastName d)) ''Last name cannot exceed 50 characters'' @
     constraint (IsNotEmpty (email d)) ''Email is required'' @
     constraint (IsEmail isEmail (email d)) ''Please provide a valid email address'' @
     constraint (MaxLength 100 (email d)) ''Email cannot exceed 100 characters'' @
     constraint (IsNotEmpty (phone d)) ''Phone number is required'' @
     constraint (IsString (phone d)) ''Phone number must be a string'' @
     constraint (MaxLength 20 (phone d)) ''Phone number cannot exceed 20 characters'' @
     constraint (MatchesPhone (phone d)) ''Please provide a valid phone number'' @
     constraint (IsNotEmpty (petType d)) ''Pet type is required'' @
     constraint (IsString (petType d)) ''Pet type must be a string'' @
     constraint (MaxLength 200 (petType d)) ''Pet type description cannot exceed 200 characters'' @
     constraint (IsNotEmpty (dates d)) ''Dates are required'' @
     constraint (IsString (dates d)) ''Dates must be a string'' @
     constraint (MaxLength 200 (dates d)) ''Dates description cannot exceed 200 characters'' @
     constraint (IsNotEmpty (recaptchaToken d)) ''Security verification is required'' @
     constraint (IsString (recaptchaToken d)) ''Invalid security token''"

text \<open>\<^verbatim>\<open>new ValidationPipe({ transform: true, whitelist: true })\<close>: the body is turned
  into an instance of the class (which runs the \<^verbatim>\<open>Transform\<close> decorators), the instance
  is validated, and \<^verbatim>\<open>whitelist\<close> strips every property that carries no validation
  decorator, which here is \<^verbatim>\<open>message\<close>. A violation raises a
  \<^verbatim>\<open>BadRequestException\<close> with the messages, and the handler is not called.\<close>

definition ValidationPipe :: "(string \<Rightarrow> bool) \<Rightarrow> MailerDto \<Rightarrow> exn + MailerDto" where
  "ValidationPipe isEmail body =
     (let d = transformDto body; errors = validateDto isEmail d
      in if errors = [] then Inr (d\<lparr> message := None \<rparr>)
         else Inl (BadRequestException errors))"

subsection \<open>The submission handler: \<^verbatim>\<open>MailerController\<close>\<close>

definition sanitizeInput :: "MailerDto \<Rightarrow> MailerDto" where
  "sanitizeInput data =
     data\<lparr> firstName := map_option trim (firstName data),
           lastName := map_option trim (lastName data),
           email := map_option (\<lambda>s. toLowerCase (trim s)) (email data),
           message := message data \<rparr>"

record EmailContent =
  user :: EmailMessage
  admin :: EmailMessage

definition userName :: "MailerDto \<Rightarrow> string" where
  "userName data = render (firstName data) @ '' '' @ render (lastName data)"

definition userText :: "string \<Rightarrow> string" where
  "userText name =
     ''Hi '' @ name @ '','' @ nl @
     nl @
     ''Thank you for reaching out to us regarding pet sitting services. We have received your message and will get back to you within 24 hours.'' @ nl @
     nl @
     ''Best regards,'' @ nl @
     ''Grant Pieterse - Pet Sitter'' @ nl @
     nl @
     ''---'' @ nl @
     ''This is an automated confirmation email. Please do not reply to this message.''"

definition adminText :: "MailerDto \<Rightarrow> string" where
  "adminText data =
     ''New contact form submission received:'' @ nl @
     nl @
     ''Contact Information:'' @ nl @
     ''- Name: '' @ userName data @ nl @
     ''- Email: '' @ render (email data) @ nl @
     ''- Message: '' @ render (message data) @ nl @
     nl @
     ''Please respond to the customer within 24 hours.''"

text \<open>\<^verbatim>\<open>process.env.ADMIN_EMAIL\<close> is \<^term>\<open>ADMIN_EMAIL e\<close>; \<^verbatim>\<open>!adminEmail\<close> holds for
  an unset and for an empty variable.\<close>

definition prepareEmailContent :: "env \<Rightarrow> MailerDto \<Rightarrow> exn + EmailContent" where
  "prepareEmailContent e data =
     (case ADMIN_EMAIL e of
        None \<Rightarrow> Inl (Error ''ADMIN_EMAIL environment variable is not configured'')
      | Some adminEmail \<Rightarrow>
          if adminEmail = [] then
            Inl (Error ''ADMIN_EMAIL environment variable is not configured'')
          else
            Inr \<lparr> user = \<lparr> msg_to = email data,
                           msg_from = adminEmail,
                           msg_subject = ''Confirmation: Your message has been received'',
                           msg_text = userText (userName data) \<rparr>,
                  admin = \<lparr> msg_to = Some adminEmail,
                            msg_from = adminEmail,
                            msg_subject = ''New Contact Form Submission - '' @ userName data,
                            msg_text = adminText data \<rparr> \<rparr>)"

text \<open>\<^verbatim>\<open>Promise.allSettled\<close> over the two calls of the mail client: both calls are
  issued, operator message first, before either outcome is looked at. The mail client
  returns a promise; its outcome is \<^term>\<open>Fulfilled\<close> or \<^term>\<open>SendRejected\<close>. The inner
  \<^verbatim>\<open>catch\<close> logs and raises the error again.\<close>

definition sendEmails :: "env \<Rightarrow> EmailContent \<Rightarrow> (exn + settled \<times> settled) \<times> event list" where
  "sendEmails e emailContent =
     (let adminResult = mailerService_sendMail e (admin emailContent);
          userResult = mailerService_sendMail e (user emailContent);
          calls = [SendMail (admin emailContent), SendMail (user emailContent)]
      in case adminResult of
           SendRejected reason \<Rightarrow>
             (Inl (Error ''Failed to process contact form submission''),
              calls @ [LoggerError ''Failed to send admin notification email'',
                       LoggerError ''Email sending failed''])
         | Fulfilled \<Rightarrow>
             (Inr (adminResult, userResult),
              calls @ (case userResult of
                         SendRejected reason \<Rightarrow> [LoggerWarn ''Failed to send user confirmation email'']
                       | Fulfilled \<Rightarrow> [])))"

definition successMessage :: string where
  "successMessage = ''Your message has been sent successfully. We will get back to you soon!''"

definition genericErrorMessage :: string where
  "genericErrorMessage = ''We are currently experiencing technical difficulties. Please try again later or contact us directly.''"

text \<open>The \<^verbatim>\<open>try\<close> block of the handler. \<^term>\<open>Inr (success, message)\<close> is the returned
  object.\<close>

definition sendMail_try :: "env \<Rightarrow> string \<Rightarrow> MailerDto \<Rightarrow> (exn + bool \<times> string) \<times> event list" where
  "sendMail_try e clientIp mailerDto =
     (case recaptchaToken mailerDto of
        None \<Rightarrow>
          (Inl (BadRequestException [''Security verification is required'']),
           [LoggerWarn (''Missing reCAPTCHA token from IP: '' @ clientIp)])
      | Some token \<Rightarrow>
          if token = [] then
            (Inl (BadRequestException [''Security verification is required'']),
             [LoggerWarn (''Missing reCAPTCHA token from IP: '' @ clientIp)])
          else
            (case verify e token (Some ''contact_form'') 0.5 of
               (isValidToken, evs) \<Rightarrow>
                 if \<not> isValidToken then
                   (Inl (UnauthorizedException ''Security verification failed. Please try again.''),
                    evs @ [LoggerWarn (''reCAPTCHA verification failed from IP: '' @ clientIp)])
                 else
                   let sanitizedData = sanitizeInput mailerDto
                   in case prepareEmailContent e sanitizedData of
                        Inl err \<Rightarrow> (Inl err, evs)
                      | Inr emailContent \<Rightarrow>
                          (case sendEmails e emailContent of
                             (Inl err, evs') \<Rightarrow> (Inl err, evs @ evs')
                           | (Inr emailResults, evs') \<Rightarrow>
                               (Inr (True, successMessage),
                                evs @ evs' @
                                [LoggerLog (''Contact form successfully sent for '' @
                                   render (email sanitizedData) @ '' from IP: '' @ clientIp)]))))"

text \<open>\<^verbatim>\<open>error instanceof UnauthorizedException || error instanceof BadRequestException\<close>.\<close>

definition isClientException :: "exn \<Rightarrow> bool" where
  "isClientException err =
     (case err of BadRequestException m \<Rightarrow> True | UnauthorizedException m \<Rightarrow> True | _ \<Rightarrow> False)"

definition sendMail :: "env \<Rightarrow> string \<Rightarrow> MailerDto \<Rightarrow> (exn + bool \<times> string) \<times> event list" where
  "sendMail e clientIp mailerDto =
     (case sendMail_try e clientIp mailerDto of
        (Inl err, evs) \<Rightarrow>
          (Inl (if isClientException err then err else HttpException genericErrorMessage 500),
           LoggerLog (''Contact form submission from IP: '' @ clientIp) # evs @
           [LoggerError (''Contact form error from IP: '' @ clientIp)])
      | (Inr r, evs) \<Rightarrow>
          (Inr r, LoggerLog (''Contact form submission from IP: '' @ clientIp) # evs))"

text \<open>One request to \<^verbatim>\<open>POST /mail/send\<close>: the pipe, then the handler. The rate-limiting
  guard in front of both is a collaborator outside the development.\<close>

definition postMailSend ::
  "(string \<Rightarrow> bool) \<Rightarrow> env \<Rightarrow> string \<Rightarrow> MailerDto \<Rightarrow> (exn + bool \<times> string) \<times> event list" where
  "postMailSend isEmail e clientIp body =
     (case ValidationPipe isEmail body of
        Inl err \<Rightarrow> (Inl err, [])
      | Inr mailerDto \<Rightarrow> sendMail e clientIp mailerDto)"

text \<open>The status code of the response to a raised exception.\<close>

definition getStatus :: "exn \<Rightarrow> nat" where
  "getStatus err =
     (case err of
        BadRequestException m \<Rightarrow> 400
      | UnauthorizedException m \<Rightarrow> 401
      | HttpException m st \<Rightarrow> st
      | _ \<Rightarrow> 500)"

text \<open>The mail-client calls among the events, and the outbound POSTs.\<close>

definition sends :: "event list \<Rightarrow> EmailMessage list" where
  "sends evs = concat (map (\<lambda>ev. case ev of SendMail m \<Rightarrow> [m] | _ \<Rightarrow> []) evs)"

definition posts :: "event list \<Rightarrow> requestBody list" where
  "posts evs = concat (map (\<lambda>ev. case ev of HttpPost rb \<Rightarrow> [rb] | _ \<Rightarrow> []) evs)"

definition consoleRecords :: "event list \<Rightarrow> console_record list" where
  "consoleRecords evs = concat (map (\<lambda>ev. case ev of Console r \<Rightarrow> [r] | _ \<Rightarrow> []) evs)"

subsection \<open>The operator message of the controller kept for testing\<close>

text \<open>\<^verbatim>\<open>adminText\<close> of the controller marked "for testing only": the name, the
  address, and a \<^verbatim>\<open>message\<close> built from the phone number, the pet types and the dates.\<close>

definition testOnly_adminText :: "MailerDto \<Rightarrow> string" where
  "testOnly_adminText mailerDto =
     ''You have received a new message from '' @
     (render (firstName mailerDto) @ '' '' @ render (lastName mailerDto)) @
     '' ('' @ render (email mailerDto) @ ''):'' @ nl @ nl @
     (''Phone: '' @ render (phone mailerDto) @ '' '' @ nl @ nl @
      '' Pet Types: '' @ render (petType mailerDto) @ '' '' @ nl @ nl @
      '' Dates: '' @ render (dates mailerDto))"

subsection \<open>A concrete request\<close>

text \<open>The request of the specification's example, an answer of the scoring service that
  accepts it, and an environment in which both sends succeed. \<open>exampleIsEmail\<close> stands in
  for the address check of the validation library.\<close>

definition exampleBody :: MailerDto where
  "exampleBody =
     \<lparr> firstName = Some ''Jane'', lastName = Some ''Doe'', email = Some ''JANE@x.com '',
       phone = Some ''555-1234'', petType = Some ''dog'', dates = Some ''Jul 1-5'',
       recaptchaToken = Some ''tok123'', message = Some ''Two cats, one week'' \<rparr>"

definition exampleIsEmail :: "string \<Rightarrow> bool" where
  "exampleIsEmail s = (CHR ''@'' \<in> set s)"

definition exampleProperties :: TokenProperties where
  "exampleProperties =
     \<lparr> valid = True, invalidReason = None, hostname = ''x.com'', action = ''contact_form'' \<rparr>"

definition exampleResponse :: RecaptchaEnterpriseResponse where
  "exampleResponse =
     \<lparr> tokenProperties = Some exampleProperties,
       riskAnalysis = Some \<lparr> score = Some 0.9, reasons = [] \<rparr> \<rparr>"

definition exampleEnv :: env where
  "exampleEnv =
     \<lparr> RECAPTCHA_SITE_KEY = Some ''site-key'',
       ADMIN_EMAIL = Some ''owner@x.com'',
       httpService_post = (\<lambda>rb. Resolved (Some exampleResponse)),
       mailerService_sendMail = (\<lambda>m. Fulfilled) \<rparr>"

text \<open>A mail client that fails on mail to the given address and delivers the rest.\<close>

definition failingFor :: "string \<Rightarrow> EmailMessage \<Rightarrow> settled" where
  "failingFor addr m = (if msg_to m = Some addr then SendRejected ''smtp'' else Fulfilled)"

text \<open>The instance the pipe hands to the handler for \<open>exampleBody\<close>, and the two
  messages composed from it.\<close>

definition exampleDto :: MailerDto where
  "exampleDto =
     \<lparr> firstName = Some ''Jane'', lastName = Some ''Doe'', email = Some ''jane@x.com'',
       phone = Some ''555-1234'', petType = Some ''dog'', dates = Some ''Jul 1-5'',
       recaptchaToken = Some ''tok123'', message = None \<rparr>"

definition exampleContent :: EmailContent where
  "exampleContent =
     \<lparr> user = \<lparr> msg_to = Some ''jane@x.com'',
                msg_from = ''owner@x.com'',
                msg_subject = ''Confirmation: Your message has been received'',
                msg_text = userText ''Jane Doe'' \<rparr>,
       admin = \<lparr> msg_to = Some ''owner@x.com'',
                 msg_from = ''owner@x.com'',
                 msg_subject = ''New Contact Form Submission - Jane Doe'',
                 msg_text =
                   ''New contact form submission received:'' @ nl @
                   nl @
                   ''Contact Information:'' @ nl @
                   ''- Name: Jane Doe'' @ nl @
                   ''- Email: jane@x.com'' @ nl @
                   ''- Message: undefined'' @ nl @
                   nl @
                   ''Please respond to the customer within 24 hours.'' \<rparr> \<rparr>"

text \<open>Answers of the scoring service: a token it rejects, a valid token without a risk
  analysis, and a valid token issued for another action.\<close>

definition rejectedResponse :: RecaptchaEnterpriseResponse where
  "rejectedResponse =
     \<lparr> tokenProperties =
         Some \<lparr> valid = False, invalidReason = Some ''MALFORMED'', hostname = [], action = [] \<rparr>,
       riskAnalysis = None \<rparr>"

definition unscoredResponse :: RecaptchaEnterpriseResponse where
  "unscoredResponse = \<lparr> tokenProperties = Some exampleProperties, riskAnalysis = None \<rparr>"

definition loginResponse :: RecaptchaEnterpriseResponse where
  "loginResponse =
     \<lparr> tokenProperties =
         Some \<lparr> valid = True, invalidReason = None, hostname = ''x.com'', action = ''login'' \<rparr>,
       riskAnalysis = Some \<lparr> score = Some 0.9, reasons = [] \<rparr> \<rparr>"

section \<open>Properties\<close>

subsection \<open>Events of the gate and of the dispatch\<close>

lemma sends_simps [simp]:
  "sends [] = []"
  "sends (SendMail m # evs) = m # sends evs"
  "sends (HttpPost rb # evs) = sends evs"
  "sends (Console r # evs) = sends evs"
  "sends (LoggerLog s # evs) = sends evs"
  "sends (LoggerWarn s # evs) = sends evs"
  "sends (LoggerError s # evs) = sends evs"
  by (simp_all add: sends_def)

lemma sends_append [simp]: "sends (xs @ ys) = sends xs @ sends ys"
  by (simp add: sends_def)

lemma sends_checkResponse: "sends (snd (checkResponse token ea ms d)) = []"
  by (simp add: checkResponse_def split: option.splits)

lemma sends_verify_catch: "sends (verify_catch err) = []"
  by (simp add: verify_catch_def split: exn.splits option.splits prod.splits)

lemma sends_verify: "sends (snd (verify e token ea ms)) = []"
  by (auto simp: verify_def verify_try_def Let_def sends_verify_catch sends_checkResponse
      split: http_result.splits option.splits prod.splits sum.splits if_splits
      dest: arg_cong[where f="\<lambda>p. sends (snd p)"])

lemma fst_checkResponse:
  "fst (checkResponse token ea ms d) \<longleftrightarrow>
     (\<exists>tp. tokenProperties d = Some tp \<and> valid tp \<and>
        (truthy ea \<longrightarrow> Some (action tp) = ea) \<and> ms \<le> scoreOf d)"
  by (auto simp: checkResponse_def split: option.splits)

lemma fst_verify:
  "fst (verify e token ea ms) \<longleftrightarrow>
     token \<noteq> [] \<and>
     (\<exists>d. httpService_post e (mkRequestBody e token ea) = Resolved (Some d) \<and>
        fst (checkResponse token ea ms d))"
  by (auto simp: verify_def verify_try_def Let_def
      split: http_result.splits option.splits prod.splits sum.splits)

lemma sends_sendEmails: "sends (snd (sendEmails e c)) = [admin c, user c]"
  by (simp add: sendEmails_def Let_def split: settled.splits)


lemma sends_verify_eq: "verify e token ea ms = (b, evs) \<Longrightarrow> sends evs = []"
  using sends_verify [of e token ea ms] by simp

lemma sends_sendEmails_eq: "sendEmails e c = (r, evs) \<Longrightarrow> sends evs = [admin c, user c]"
  using sends_sendEmails [of e c] by simp

lemma sends_sendMail_try:
  assumes "sends (snd (sendMail_try e clientIp dto)) \<noteq> []"
  shows "\<exists>token. recaptchaToken dto = Some token \<and> fst (verify e token (Some ''contact_form'') 0.5)"
  using assms
  by (auto simp: sendMail_try_def Let_def sends_verify_eq
      split: option.splits if_splits prod.splits sum.splits)

lemma sends_sendMail:
  "sends (snd (sendMail e clientIp dto)) = sends (snd (sendMail_try e clientIp dto))"
  by (simp add: sendMail_def split: prod.splits sum.splits)

lemma ValidationPipe_Inr:
  "ValidationPipe isEmail body = Inr dto \<longleftrightarrow>
     validateDto isEmail (transformDto body) = [] \<and> dto = (transformDto body)\<lparr> message := None \<rparr>"
  by (auto simp: ValidationPipe_def Let_def)

lemma recaptchaToken_transformDto: "recaptchaToken (transformDto body) = recaptchaToken body"
  by (simp add: transformDto_def)

lemma scoreOf_ge:
  "0 < ms \<Longrightarrow> ms \<le> scoreOf d \<Longrightarrow> \<exists>s. riskScore d = Some s \<and> ms \<le> s"
  by (auto simp: scoreOf_def split: option.splits)

lemma postMailSend_dispatch:
  assumes "ValidationPipe isEmail body = Inr dto"
      and "recaptchaToken dto = Some token"
      and "fst (verify e token (Some ''contact_form'') 0.5)"
      and "prepareEmailContent e (sanitizeInput dto) = Inr c"
  shows "fst (postMailSend isEmail e clientIp body) =
           (case mailerService_sendMail e (admin c) of
              Fulfilled \<Rightarrow> Inr (True, successMessage)
            | SendRejected r \<Rightarrow> Inl (HttpException genericErrorMessage 500))"
    and "sends (snd (postMailSend isEmail e clientIp body)) = [admin c, user c]"
    and "mailerService_sendMail e (admin c) = Fulfilled \<Longrightarrow>
         mailerService_sendMail e (user c) = SendRejected r \<Longrightarrow>
         LoggerWarn ''Failed to send user confirmation email''
           \<in> set (snd (postMailSend isEmail e clientIp body))"
proof -
  from assms(3) have ne: "token \<noteq> []" by (simp add: fst_verify)
  obtain evs where v: "verify e token (Some ''contact_form'') 0.5 = (True, evs)"
    using assms(3) by (cases "verify e token (Some ''contact_form'') 0.5") auto
  show "fst (postMailSend isEmail e clientIp body) =
           (case mailerService_sendMail e (admin c) of
              Fulfilled \<Rightarrow> Inr (True, successMessage)
            | SendRejected r \<Rightarrow> Inl (HttpException genericErrorMessage 500))"
    using assms(1,2,4) ne v
    by (simp add: postMailSend_def sendMail_def sendMail_try_def sendEmails_def Let_def
        isClientException_def split: settled.splits)
  show "sends (snd (postMailSend isEmail e clientIp body)) = [admin c, user c]"
    using assms(1,2,4) ne v sends_verify_eq [OF v]
    by (simp add: postMailSend_def sendMail_def sendMail_try_def sendEmails_def Let_def
        split: settled.splits)
  show "mailerService_sendMail e (admin c) = Fulfilled \<Longrightarrow>
         mailerService_sendMail e (user c) = SendRejected r \<Longrightarrow>
         LoggerWarn ''Failed to send user confirmation email''
           \<in> set (snd (postMailSend isEmail e clientIp body))"
    using assms(1,2,4) ne v
    by (simp add: postMailSend_def sendMail_def sendMail_try_def sendEmails_def Let_def)
qed

lemma consoleRecords_simps [simp]:
  "consoleRecords [] = []"
  "consoleRecords (Console r # evs) = r # consoleRecords evs"
  "consoleRecords (HttpPost rb # evs) = consoleRecords evs"
  "consoleRecords (SendMail m # evs) = consoleRecords evs"
  "consoleRecords (LoggerLog s # evs) = consoleRecords evs"
  "consoleRecords (LoggerWarn s # evs) = consoleRecords evs"
  "consoleRecords (LoggerError s # evs) = consoleRecords evs"
  by (simp_all add: consoleRecords_def)

lemma posts_simps [simp]:
  "posts [] = []"
  "posts (HttpPost rb # evs) = rb # posts evs"
  "posts (Console r # evs) = posts evs"
  "posts (SendMail m # evs) = posts evs"
  "posts (LoggerLog s # evs) = posts evs"
  "posts (LoggerWarn s # evs) = posts evs"
  "posts (LoggerError s # evs) = posts evs"
  by (simp_all add: posts_def)

lemma posts_append [simp]: "posts (xs @ ys) = posts xs @ posts ys"
  by (simp add: posts_def)

lemma posts_checkResponse: "posts (snd (checkResponse token ea ms d)) = []"
  by (simp add: checkResponse_def split: option.splits)

lemma posts_verify_catch: "posts (verify_catch err) = []"
  by (simp add: verify_catch_def split: exn.splits option.splits prod.splits)

lemma posts_verify:
  "posts (snd (verify e token ea ms)) = (if token = [] then [] else [mkRequestBody e token ea])"
  using posts_checkResponse
  by (auto simp: verify_def verify_try_def Let_def posts_verify_catch
      split: http_result.splits option.splits prod.splits sum.splits
      dest: arg_cong[where f="\<lambda>p. posts (snd p)"])

lemma verify_resolved:
  "token \<noteq> [] \<Longrightarrow> httpService_post e (mkRequestBody e token ea) = Resolved (Some d) \<Longrightarrow>
   verify e token ea ms =
     (fst (checkResponse token ea ms d), HttpPost (mkRequestBody e token ea) # snd (checkResponse token ea ms d))"
  by (simp add: verify_def verify_try_def Let_def split: prod.splits)

lemma verify_rejected:
  "token \<noteq> [] \<Longrightarrow> httpService_post e (mkRequestBody e token ea) = Rejected err \<Longrightarrow>
   verify e token ea ms = (False, HttpPost (mkRequestBody e token ea) # verify_catch err)"
  by (simp add: verify_def verify_try_def Let_def)

lemma verify_no_data:
  "token \<noteq> [] \<Longrightarrow> httpService_post e (mkRequestBody e token ea) = Resolved None \<Longrightarrow>
   verify e token ea ms =
     (False, [HttpPost (mkRequestBody e token ea), Console (ErrorVerifying TypeError)])"
  by (simp add: verify_def verify_try_def verify_catch_def Let_def)

lemma verify_fails_closed:
  assumes "httpService_post e (mkRequestBody e token ea) = Resolved (Some d)"
      and "tokenProperties d = None \<or>
           (\<exists>tp. tokenProperties d = Some tp \<and>
              (\<not> valid tp \<or> (truthy ea \<and> Some (action tp) \<noteq> ea) \<or> scoreOf d < ms))"
  shows "\<not> fst (verify e token ea ms)"
  using assms by (auto simp: fst_verify fst_checkResponse)

subsection \<open>The pipe and the example request\<close>

lemma constraint_Nil [simp]: "constraint ok msg = [] \<longleftrightarrow> ok"
  by (simp add: constraint_def)

lemma validateDto_token:
  "validateDto isEmail d = [] \<Longrightarrow> IsNotEmpty (recaptchaToken d)"
  by (simp add: validateDto_def)

lemma ValidationPipe_token:
  assumes "ValidationPipe isEmail body = Inr dto" and "recaptchaToken dto = Some token"
  shows "token \<noteq> []"
proof -
  from assms(1) have ok: "validateDto isEmail (transformDto body) = []"
    and dto: "dto = (transformDto body)\<lparr> message := None \<rparr>"
    by (simp_all add: ValidationPipe_Inr)
  from validateDto_token [OF ok] dto assms(2) show ?thesis
    by (simp add: IsNotEmpty_def)
qed

lemma ValidationPipe_email:
  "ValidationPipe isEmail body = Inr dto \<Longrightarrow>
   email dto = map_option (\<lambda>s. toLowerCase (trim s)) (email body)"
  by (simp add: ValidationPipe_Inr transformDto_def)

lemma jane_normalised:
  "toLowerCase (trim (toLowerCase (trim ''JANE@x.com ''))) = ''jane@x.com''"
  by code_simp

lemma sublist_email_adminText: "sublist (''- Email: '' @ render (email data)) (adminText data)"
proof -
  have "adminText data =
      (''New contact form submission received:'' @ nl @ nl @ ''Contact Information:'' @ nl @
       ''- Name: '' @ userName data @ nl) @
      (''- Email: '' @ render (email data)) @
      (nl @ ''- Message: '' @ render (message data) @ nl @ nl @
       ''Please respond to the customer within 24 hours.'')"
    by (simp add: adminText_def)
  then show ?thesis
    using sublist_appendI by metis
qed

lemma example_pipe: "ValidationPipe exampleIsEmail exampleBody = Inr exampleDto"
  by code_simp

lemma example_content:
  "prepareEmailContent (exampleEnv\<lparr> mailerService_sendMail := m \<rparr>) (sanitizeInput exampleDto)
     = Inr exampleContent"
  by code_simp

lemma example_verify:
  "fst (verify (exampleEnv\<lparr> mailerService_sendMail := m \<rparr>) ''tok123'' (Some ''contact_form'') 0.5)"
  by code_simp

lemma example_token: "recaptchaToken exampleDto = Some ''tok123''"
  by (simp add: exampleDto_def)

lemma trim_Nil: "trim [] = []"
  by (simp add: trim_def)

lemma message_is_ignored:
  "postMailSend isEmail e clientIp (body\<lparr> message := m \<rparr>) = postMailSend isEmail e clientIp body"
proof -
  have "ValidationPipe isEmail (body\<lparr> message := m \<rparr>) = ValidationPipe isEmail body"
    by (simp add: ValidationPipe_def transformDto_def validateDto_def Let_def)
  then show ?thesis by (simp add: postMailSend_def)
qed

lemma pipe_rejects:
  assumes "msg \<in> set (validateDto isEmail (transformDto body))"
  shows "\<exists>msgs. postMailSend isEmail e clientIp body = (Inl (BadRequestException msgs), []) \<and>
           msg \<in> set msgs \<and> getStatus (BadRequestException msgs) = 400"
proof -
  from assms have "validateDto isEmail (transformDto body) \<noteq> []" by auto
  with assms show ?thesis
    by (simp add: postMailSend_def ValidationPipe_def Let_def getStatus_def)
qed

lemma declared_field_required:
  shows "\<not> truthy (firstName body) \<Longrightarrow>
           ''First name is required'' \<in> set (validateDto isEmail (transformDto body))"
    and "\<not> truthy (lastName body) \<Longrightarrow>
           ''Last name is required'' \<in> set (validateDto isEmail (transformDto body))"
    and "\<not> truthy (email body) \<Longrightarrow>
           ''Email is required'' \<in> set (validateDto isEmail (transformDto body))"
    and "\<not> truthy (phone body) \<Longrightarrow>
           ''Phone number is required'' \<in> set (validateDto isEmail (transformDto body))"
    and "\<not> truthy (petType body) \<Longrightarrow>
           ''Pet type is required'' \<in> set (validateDto isEmail (transformDto body))"
    and "\<not> truthy (dates body) \<Longrightarrow>
           ''Dates are required'' \<in> set (validateDto isEmail (transformDto body))"
    and "\<not> truthy (recaptchaToken body) \<Longrightarrow>
           ''Security verification is required'' \<in> set (validateDto isEmail (transformDto body))"
  by (auto simp: truthy_def validateDto_def transformDto_def constraint_def IsNotEmpty_def
      trim_Nil toLowerCase_def split: option.splits)

subsection \<open>The composed messages\<close>

lemma operator_message_ignores_details:
  "adminText (data\<lparr> phone := p, petType := t, dates := ds \<rparr>) = adminText data"
  by (simp add: adminText_def userName_def)

lemma testOnly_adminText_details:
  "sublist (render (phone d)) (testOnly_adminText d)"
  "sublist (render (petType d)) (testOnly_adminText d)"
  "sublist (render (dates d)) (testOnly_adminText d)"
proof -
  have "testOnly_adminText d =
      (''You have received a new message from '' @
       (render (firstName d) @ '' '' @ render (lastName d)) @
       '' ('' @ render (email d) @ ''):'' @ nl @ nl @ ''Phone: '') @ render (phone d) @
      ('' '' @ nl @ nl @ '' Pet Types: '' @ render (petType d) @ '' '' @ nl @ nl @
       '' Dates: '' @ render (dates d))"
    by (simp add: testOnly_adminText_def)
  then show "sublist (render (phone d)) (testOnly_adminText d)"
    using sublist_appendI by metis
  have "testOnly_adminText d =
      (''You have received a new message from '' @
       (render (firstName d) @ '' '' @ render (lastName d)) @
       '' ('' @ render (email d) @ ''):'' @ nl @ nl @ ''Phone: '' @ render (phone d) @
       '' '' @ nl @ nl @ '' Pet Types: '') @ render (petType d) @
      ('' '' @ nl @ nl @ '' Dates: '' @ render (dates d))"
    by (simp add: testOnly_adminText_def)
  then show "sublist (render (petType d)) (testOnly_adminText d)"
    using sublist_appendI by metis
  have "testOnly_adminText d =
      (''You have received a new message from '' @
       (render (firstName d) @ '' '' @ render (lastName d)) @
       '' ('' @ render (email d) @ ''):'' @ nl @ nl @ ''Phone: '' @ render (phone d) @
       '' '' @ nl @ nl @ '' Pet Types: '' @ render (petType d) @ '' '' @ nl @ nl @
       '' Dates: '') @ render (dates d) @ []"
    by (simp add: testOnly_adminText_def)
  then show "sublist (render (dates d)) (testOnly_adminText d)"
    using sublist_appendI by metis
qed

lemma submitter_message_is_template:
  "prepareEmailContent e data = Inr c \<Longrightarrow>
   msg_to (user c) = email data \<and>
   msg_subject (user c) = ''Confirmation: Your message has been received'' \<and>
   msg_text (user c) = userText (render (firstName data) @ '' '' @ render (lastName data))"
  by (auto simp: prepareEmailContent_def userName_def split: option.splits if_splits)

subsection \<open>What the gate logs of a short token\<close>

lemma short_token_logged:
  assumes "token \<noteq> []" and "length token \<le> 20"
      and "httpService_post e (mkRequestBody e token ea) = Resolved (Some d)"
      and "tokenProperties d = Some tp" and "\<not> valid tp"
  shows "consoleRecords (snd (verify e token ea ms))
           = [TokenInvalid (invalidReason tp) (token @ ''...'')]"
  using assms by (simp add: verify_resolved checkResponse_def)

subsection \<open>Nothing is sent before validation and verification\<close>

text \<open>
  Claim C1. Whenever a request to the endpoint leads to a call of the mail client, every
  field validation of the pipe has passed and the gate has returned true for the
  submitted token: the scoring service answered with a valid token, the action
  \<^verbatim>\<open>contact_form\<close> and a score of at least 0.5. Hence a request rejected at validation
  or at verification makes no call of the mail client.
\<close>

theorem C1_no_send_unless_validated_and_verified:
  assumes "sends (snd (postMailSend isEmail e clientIp body)) \<noteq> []"
  shows "validateDto isEmail (transformDto body) = [] \<and>
         (\<exists>token d tp s.
            recaptchaToken body = Some token \<and>
            fst (verify e token (Some ''contact_form'') 0.5) \<and>
            httpService_post e (mkRequestBody e token (Some ''contact_form'')) = Resolved (Some d) \<and>
            tokenProperties d = Some tp \<and> valid tp \<and> action tp = ''contact_form'' \<and>
            riskScore d = Some s \<and> 0.5 \<le> s)"
proof -
  from assms obtain dto where pipe: "ValidationPipe isEmail body = Inr dto"
    and snd: "sends (snd (sendMail e clientIp dto)) \<noteq> []"
    by (cases "ValidationPipe isEmail body") (auto simp: postMailSend_def)
  from pipe have ok: "validateDto isEmail (transformDto body) = []"
    and dto: "dto = (transformDto body)\<lparr> message := None \<rparr>"
    by (simp_all add: ValidationPipe_Inr)
  from snd obtain token where tok: "recaptchaToken dto = Some token"
    and ver: "fst (verify e token (Some ''contact_form'') 0.5)"
    using sends_sendMail_try [of e clientIp dto] by (auto simp: sends_sendMail)
  from tok dto have tok': "recaptchaToken body = Some token"
    by (simp add: recaptchaToken_transformDto)
  from ver obtain d tp where
    post: "httpService_post e (mkRequestBody e token (Some ''contact_form'')) = Resolved (Some d)"
    and tp: "tokenProperties d = Some tp" "valid tp" "action tp = ''contact_form''"
    and sc: "0.5 \<le> scoreOf d"
    by (auto simp: fst_verify fst_checkResponse truthy_def)
  from sc obtain s where "riskScore d = Some s" "0.5 \<le> s"
    using scoreOf_ge [of "0.5" d] by auto
  with ok tok' ver post tp show ?thesis by blast
qed

theorem C1_witness:
  "sends (snd (postMailSend exampleIsEmail exampleEnv ''203.0.113.7'' exampleBody)) \<noteq> [] \<and>
   validateDto exampleIsEmail (transformDto exampleBody) = [] \<and>
   fst (verify exampleEnv ''tok123'' (Some ''contact_form'') 0.5)"
proof -
  have h: "sends (snd (postMailSend exampleIsEmail exampleEnv ''203.0.113.7'' exampleBody)) \<noteq> []"
    by code_simp
  have t: "recaptchaToken exampleBody = Some ''tok123''"
    by (simp add: exampleBody_def)
  from C1_no_send_unless_validated_and_verified [OF h] h t show ?thesis
    by auto
qed

subsection \<open>Failure of the operator notification\<close>

text \<open>
  Claim C2. For a request that has passed the pipe and the gate and whose messages have
  been composed: if the send of the operator notification fails, the handler answers
  with the generic server error, status 500, whatever the outcome of the submitter
  confirmation; and both sends are attempted, the operator notification first and the
  submitter confirmation after it.
\<close>

theorem C2_operator_failure_is_fatal:
  assumes "ValidationPipe isEmail body = Inr dto"
      and "recaptchaToken dto = Some token"
      and "fst (verify e token (Some ''contact_form'') 0.5)"
      and "prepareEmailContent e (sanitizeInput dto) = Inr c"
      and "mailerService_sendMail e (admin c) = SendRejected r"
  shows "fst (postMailSend isEmail e clientIp body) = Inl (HttpException genericErrorMessage 500) \<and>
         getStatus (HttpException genericErrorMessage 500) = 500 \<and>
         sends (snd (postMailSend isEmail e clientIp body)) = [admin c, user c]"
  using postMailSend_dispatch(1,2) [OF assms(1-4), of clientIp] assms(5)
  by (simp add: getStatus_def)

theorem C2_witness:
  "mailerService_sendMail (exampleEnv\<lparr> mailerService_sendMail := failingFor ''owner@x.com'' \<rparr>)
     (admin exampleContent) = SendRejected ''smtp'' \<and>
   mailerService_sendMail (exampleEnv\<lparr> mailerService_sendMail := failingFor ''owner@x.com'' \<rparr>)
     (user exampleContent) = Fulfilled \<and>
   fst (postMailSend exampleIsEmail
          (exampleEnv\<lparr> mailerService_sendMail := failingFor ''owner@x.com'' \<rparr>)
          ''203.0.113.7'' exampleBody) = Inl (HttpException genericErrorMessage 500) \<and>
   sends (snd (postMailSend exampleIsEmail
          (exampleEnv\<lparr> mailerService_sendMail := failingFor ''owner@x.com'' \<rparr>)
          ''203.0.113.7'' exampleBody)) = [admin exampleContent, user exampleContent]"
proof -
  let ?e = "exampleEnv\<lparr> mailerService_sendMail := failingFor ''owner@x.com'' \<rparr>"
  have a: "mailerService_sendMail ?e (admin exampleContent) = SendRejected ''smtp''"
    by (simp add: failingFor_def exampleContent_def)
  have u: "mailerService_sendMail ?e (user exampleContent) = Fulfilled"
    by (simp add: failingFor_def exampleContent_def)
  from C2_operator_failure_is_fatal
    [OF example_pipe example_token example_verify example_content a, of "''203.0.113.7''"] a u
  show ?thesis by simp
qed

subsection \<open>Failure of the submitter confirmation\<close>

text \<open>
  Claim C3. For a request that has passed the pipe and the gate and whose messages have
  been composed: if the send of the operator notification succeeds and the send of the
  submitter confirmation fails, the handler returns the success object with the success
  message, and the failure shows only as a warning of the logger.
\<close>

theorem C3_submitter_failure_is_tolerated:
  assumes "ValidationPipe isEmail body = Inr dto"
      and "recaptchaToken dto = Some token"
      and "fst (verify e token (Some ''contact_form'') 0.5)"
      and "prepareEmailContent e (sanitizeInput dto) = Inr c"
      and "mailerService_sendMail e (admin c) = Fulfilled"
      and "mailerService_sendMail e (user c) = SendRejected r"
  shows "fst (postMailSend isEmail e clientIp body) = Inr (True, successMessage) \<and>
         sends (snd (postMailSend isEmail e clientIp body)) = [admin c, user c] \<and>
         LoggerWarn ''Failed to send user confirmation email''
           \<in> set (snd (postMailSend isEmail e clientIp body))"
  using postMailSend_dispatch [OF assms(1-4)] assms(5,6)
  by simp

theorem C3_witness:
  "mailerService_sendMail (exampleEnv\<lparr> mailerService_sendMail := failingFor ''jane@x.com'' \<rparr>)
     (admin exampleContent) = Fulfilled \<and>
   mailerService_sendMail (exampleEnv\<lparr> mailerService_sendMail := failingFor ''jane@x.com'' \<rparr>)
     (user exampleContent) = SendRejected ''smtp'' \<and>
   fst (postMailSend exampleIsEmail
          (exampleEnv\<lparr> mailerService_sendMail := failingFor ''jane@x.com'' \<rparr>)
          ''203.0.113.7'' exampleBody) = Inr (True, successMessage) \<and>
   LoggerWarn ''Failed to send user confirmation email''
     \<in> set (snd (postMailSend exampleIsEmail
          (exampleEnv\<lparr> mailerService_sendMail := failingFor ''jane@x.com'' \<rparr>)
          ''203.0.113.7'' exampleBody))"
proof -
  let ?e = "exampleEnv\<lparr> mailerService_sendMail := failingFor ''jane@x.com'' \<rparr>"
  have a: "mailerService_sendMail ?e (admin exampleContent) = Fulfilled"
    by (simp add: failingFor_def exampleContent_def)
  have u: "mailerService_sendMail ?e (user exampleContent) = SendRejected ''smtp''"
    by (simp add: failingFor_def exampleContent_def)
  from C3_submitter_failure_is_tolerated
    [OF example_pipe example_token example_verify example_content a u, of "''203.0.113.7''"] a u
  show ?thesis by simp
qed

subsection \<open>A missing token at the gate\<close>

text \<open>
  Claim C4. With an empty token the \<^verbatim>\<open>try\<close> block of \<^verbatim>\<open>verify\<close> raises the
  \<^verbatim>\<open>HttpException\<close> "reCAPTCHA token is required" with status 400 before any POST, but
  the \<^verbatim>\<open>catch\<close> block of the same function takes it: \<^verbatim>\<open>verify\<close> returns \<^verbatim>\<open>false\<close>,
  as it does for a rejected token, and writes two console records. The caller gets no
  "token required" condition. (For a non-empty token the gate fails closed:
  \<open>verify_rejected\<close>, \<open>verify_no_data\<close>, \<open>verify_fails_closed\<close>.)
\<close>

theorem C4_missing_token_returns_false:
  "verify_try e [] expectedAction minScore
     = (Inl (HttpException ''reCAPTCHA token is required'' 400), []) \<and>
   verify e [] expectedAction minScore
     = (False, [Console (ErrorVerifying (HttpException ''reCAPTCHA token is required'' 400)),
                Console (ApiError None None)])"
  by (simp add: verify_def verify_try_def verify_catch_def)

subsection \<open>A request without a message\<close>

text \<open>
  Claim C5. The class declares no \<^verbatim>\<open>message\<close> property, so the pipe checks none: the
  example request without a message, or with an empty one, passes the pipe and the
  gate, both emails are sent and the handler returns success. (For the seven declared
  properties a missing or empty value is rejected with status 400 and the message of
  the property: \<open>declared_field_required\<close>, \<open>pipe_rejects\<close>.)
\<close>

theorem C5_missing_message_is_accepted:
  "fst (postMailSend exampleIsEmail exampleEnv ''203.0.113.7'' (exampleBody\<lparr> message := None \<rparr>))
     = Inr (True, successMessage) \<and>
   sends (snd (postMailSend exampleIsEmail exampleEnv ''203.0.113.7''
                 (exampleBody\<lparr> message := None \<rparr>)))
     = [admin exampleContent, user exampleContent] \<and>
   fst (postMailSend exampleIsEmail exampleEnv ''203.0.113.7'' (exampleBody\<lparr> message := Some [] \<rparr>))
     = Inr (True, successMessage) \<and>
   sends (snd (postMailSend exampleIsEmail exampleEnv ''203.0.113.7''
                 (exampleBody\<lparr> message := Some [] \<rparr>)))
     = [admin exampleContent, user exampleContent]"
  by code_simp

subsection \<open>The content of the operator notification\<close>

text \<open>
  Claim C6. For the example request the operator notification holds the name and the
  email address only: the phone number, the pet type, the dates and the submitted
  message are not part of its text, and its message line reads \<^verbatim>\<open>undefined\<close>. (The
  submitter confirmation is the fixed template with the first and the last name:
  \<open>submitter_message_is_template\<close>.)
\<close>

theorem C6_operator_message_omits_details:
  "sends (snd (postMailSend exampleIsEmail exampleEnv ''203.0.113.7'' exampleBody))
     = [admin exampleContent, user exampleContent] \<and>
   \<not> sublist ''555-1234'' (msg_text (admin exampleContent)) \<and>
   \<not> sublist ''dog'' (msg_text (admin exampleContent)) \<and>
   \<not> sublist ''Jul 1-5'' (msg_text (admin exampleContent)) \<and>
   \<not> sublist ''Two cats, one week'' (msg_text (admin exampleContent)) \<and>
   sublist ''- Message: undefined'' (msg_text (admin exampleContent))"
  by code_simp

subsection \<open>The token in the console records\<close>

text \<open>
  Claim C7. For the token \<^verbatim>\<open>tok123\<close>, which the scoring service rejects, the record
  that \<^verbatim>\<open>verify\<close> writes holds \<^verbatim>\<open>tok123...\<close>: the whole token, since
  \<^verbatim>\<open>substring(0, 20)\<close> of a token of at most 20 characters is the token.
\<close>

theorem C7_short_token_is_logged_in_full:
  "consoleRecords
     (snd (verify (exampleEnv\<lparr> httpService_post := (\<lambda>rb. Resolved (Some rejectedResponse)) \<rparr>)
             ''tok123'' (Some ''contact_form'') 0.5))
     = [TokenInvalid (Some ''MALFORMED'') ''tok123...''] \<and>
   prefix ''tok123'' ''tok123...''"
  by code_simp

subsection \<open>A valid and verified request\<close>

text \<open>
  Claim C8, amended. For a request that has passed the pipe and whose token the scoring
  service reports valid, issued for \<^verbatim>\<open>contact_form\<close> and scored at least 0.5: when
  the operator address \<^verbatim>\<open>ADMIN_EMAIL\<close> is configured, the handler composes the two
  messages and attempts exactly two sends, and it returns the success response when
  the send of the operator notification succeeds. For the email \<^verbatim>\<open>"JANE@x.com "\<close> the
  composed messages use \<^verbatim>\<open>jane@x.com\<close>.
\<close>

theorem C8_two_sends_and_success:
  assumes "ValidationPipe isEmail body = Inr dto"
      and "recaptchaToken dto = Some token"
      and "httpService_post e (mkRequestBody e token (Some ''contact_form'')) = Resolved (Some d)"
      and "tokenProperties d = Some tp" and "valid tp" and "action tp = ''contact_form''"
      and "0.5 \<le> scoreOf d"
      and "ADMIN_EMAIL e = Some adminEmail" and "adminEmail \<noteq> []"
  shows "\<exists>c. prepareEmailContent e (sanitizeInput dto) = Inr c \<and>
             sends (snd (postMailSend isEmail e clientIp body)) = [admin c, user c] \<and>
             (mailerService_sendMail e (admin c) = Fulfilled \<longrightarrow>
                fst (postMailSend isEmail e clientIp body) = Inr (True, successMessage)) \<and>
             (email body = Some ''JANE@x.com '' \<longrightarrow>
                msg_to (user c) = Some ''jane@x.com'' \<and>
                sublist ''- Email: jane@x.com'' (msg_text (admin c)))"
proof -
  have ne: "token \<noteq> []"
    using ValidationPipe_token [OF assms(1,2)] .
  have ver: "fst (verify e token (Some ''contact_form'') 0.5)"
    using ne assms(3-7) by (simp add: fst_verify fst_checkResponse truthy_def)
  obtain c where c: "prepareEmailContent e (sanitizeInput dto) = Inr c"
    and usr: "msg_to (user c) = email (sanitizeInput dto)"
    and adm: "msg_text (admin c) = adminText (sanitizeInput dto)"
    using assms(8,9) by (simp add: prepareEmailContent_def)
  have mail: "email (sanitizeInput dto) =
      map_option (\<lambda>s. toLowerCase (trim (toLowerCase (trim s)))) (email body)"
    using ValidationPipe_email [OF assms(1)]
    by (simp add: sanitizeInput_def option.map_comp comp_def)
  have jane: "email body = Some ''JANE@x.com '' \<Longrightarrow>
      msg_to (user c) = Some ''jane@x.com'' \<and>
      sublist ''- Email: jane@x.com'' (msg_text (admin c))"
    using sublist_email_adminText [of "sanitizeInput dto"]
    by (simp add: usr adm mail jane_normalised render_def)
  from postMailSend_dispatch(1,2) [OF assms(1,2) ver c, of clientIp] c jane
  show ?thesis by auto
qed

theorem C8_witness:
  "ValidationPipe exampleIsEmail exampleBody = Inr exampleDto \<and>
   httpService_post exampleEnv (mkRequestBody exampleEnv ''tok123'' (Some ''contact_form''))
     = Resolved (Some exampleResponse) \<and>
   valid exampleProperties \<and> action exampleProperties = ''contact_form'' \<and>
   0.5 \<le> scoreOf exampleResponse \<and>
   mailerService_sendMail exampleEnv (admin exampleContent) = Fulfilled \<and>
   email exampleBody = Some ''JANE@x.com '' \<and>
   sends (snd (postMailSend exampleIsEmail exampleEnv ''203.0.113.7'' exampleBody))
     = [admin exampleContent, user exampleContent] \<and>
   fst (postMailSend exampleIsEmail exampleEnv ''203.0.113.7'' exampleBody)
     = Inr (True, successMessage) \<and>
   msg_to (user exampleContent) = Some ''jane@x.com'' \<and>
   sublist ''- Email: jane@x.com'' (msg_text (admin exampleContent))"
proof -
  have post: "httpService_post exampleEnv (mkRequestBody exampleEnv ''tok123'' (Some ''contact_form''))
     = Resolved (Some exampleResponse)"
    by (simp add: exampleEnv_def)
  have tp: "tokenProperties exampleResponse = Some exampleProperties"
    by (simp add: exampleResponse_def)
  have v: "valid exampleProperties" and a: "action exampleProperties = ''contact_form''"
    by (simp_all add: exampleProperties_def)
  have sc: "0.5 \<le> scoreOf exampleResponse"
    by (simp add: scoreOf_def riskScore_def exampleResponse_def)
  have adm: "ADMIN_EMAIL exampleEnv = Some ''owner@x.com''" and ne: "''owner@x.com'' \<noteq> []"
    by (simp_all add: exampleEnv_def)
  have c: "prepareEmailContent exampleEnv (sanitizeInput exampleDto) = Inr exampleContent"
    using example_content [of "\<lambda>m. Fulfilled"] by (simp add: exampleEnv_def)
  have m: "mailerService_sendMail exampleEnv (admin exampleContent) = Fulfilled"
    by (simp add: exampleEnv_def)
  have b: "email exampleBody = Some ''JANE@x.com ''"
    by (simp add: exampleBody_def)
  from C8_two_sends_and_success [OF example_pipe example_token post tp v a sc adm ne,
      of "''203.0.113.7''"] c m b
  have "sends (snd (postMailSend exampleIsEmail exampleEnv ''203.0.113.7'' exampleBody))
     = [admin exampleContent, user exampleContent] \<and>
   fst (postMailSend exampleIsEmail exampleEnv ''203.0.113.7'' exampleBody)
     = Inr (True, successMessage) \<and>
   msg_to (user exampleContent) = Some ''jane@x.com'' \<and>
   sublist ''- Email: jane@x.com'' (msg_text (admin exampleContent))"
    by auto
  with example_pipe post v a sc m b show ?thesis by simp
qed

text \<open>
  The statement without the two conditions fails: the example request is valid and
  verified, yet without \<^verbatim>\<open>ADMIN_EMAIL\<close> the handler sends nothing and answers with
  status 500, and with a failing operator send it answers with status 500 as well.
\<close>

theorem C8_counterexample:
  "ValidationPipe exampleIsEmail exampleBody = Inr exampleDto \<and>
   fst (verify exampleEnv ''tok123'' (Some ''contact_form'') 0.5) \<and>
   postMailSend exampleIsEmail (exampleEnv\<lparr> ADMIN_EMAIL := None \<rparr>) [] exampleBody
     = (Inl (HttpException genericErrorMessage 500),
        [LoggerLog ''Contact form submission from IP: '',
         HttpPost \<lparr> event_token = ''tok123'', event_siteKey = Some ''site-key'',
                    event_expectedAction = ''contact_form'' \<rparr>,
         Console (VerificationSuccessful 0.9 ''contact_form'' ''x.com''),
         LoggerError ''Contact form error from IP: '']) \<and>
   fst (postMailSend exampleIsEmail
          (exampleEnv\<lparr> mailerService_sendMail := failingFor ''owner@x.com'' \<rparr>) [] exampleBody)
     = Inl (HttpException genericErrorMessage 500)"
  by code_simp

subsection \<open>A valid token without a score\<close>

text \<open>
  Claim C9. When the scoring service reports the token valid and its answer carries no
  score (no risk analysis, or a risk analysis without score), \<^verbatim>\<open>verify\<close> takes the
  score to be 0 and returns false for every positive minimum score; when the call gets
  as far as the score check, the record it writes shows the score 0.
\<close>

theorem C9_missing_score_fails_closed:
  assumes "httpService_post e (mkRequestBody e token expectedAction) = Resolved (Some d)"
      and "tokenProperties d = Some tp" and "valid tp"
      and "riskScore d = None"
      and "0 < minScore"
  shows "scoreOf d = 0 \<and>
         \<not> fst (verify e token expectedAction minScore) \<and>
         (token \<noteq> [] \<and> (truthy expectedAction \<longrightarrow> Some (action tp) = expectedAction) \<longrightarrow>
            consoleRecords (snd (verify e token expectedAction minScore))
              = [ScoreTooLow 0 minScore (reasonsOf d)])"
proof -
  have z: "scoreOf d = 0"
    using assms(4) by (simp add: scoreOf_def)
  have f: "\<not> fst (verify e token expectedAction minScore)"
    using assms(1,5) z by (auto simp: fst_verify fst_checkResponse)
  have r: "consoleRecords (snd (verify e token expectedAction minScore))
              = [ScoreTooLow 0 minScore (reasonsOf d)]"
    if "token \<noteq> []" and "truthy expectedAction \<longrightarrow> Some (action tp) = expectedAction"
    using that assms(1,2,3,5) z
    by (auto simp: verify_resolved checkResponse_def)
  from z f r show ?thesis by blast
qed

theorem C9_witness:
  "httpService_post (exampleEnv\<lparr> httpService_post := (\<lambda>rb. Resolved (Some unscoredResponse)) \<rparr>)
     (mkRequestBody (exampleEnv\<lparr> httpService_post := (\<lambda>rb. Resolved (Some unscoredResponse)) \<rparr>)
        ''tok123'' (Some ''contact_form'')) = Resolved (Some unscoredResponse) \<and>
   tokenProperties unscoredResponse = Some exampleProperties \<and> valid exampleProperties \<and>
   riskScore unscoredResponse = None \<and> (0::real) < 0.5 \<and>
   ''tok123'' \<noteq> [] \<and>
   truthy (Some ''contact_form'') \<and> Some (action exampleProperties) = Some ''contact_form'' \<and>
   \<not> fst (verify (exampleEnv\<lparr> httpService_post := (\<lambda>rb. Resolved (Some unscoredResponse)) \<rparr>)
           ''tok123'' (Some ''contact_form'') 0.5) \<and>
   consoleRecords
     (snd (verify (exampleEnv\<lparr> httpService_post := (\<lambda>rb. Resolved (Some unscoredResponse)) \<rparr>)
             ''tok123'' (Some ''contact_form'') 0.5))
     = [ScoreTooLow 0 0.5 None]"
proof -
  let ?e = "exampleEnv\<lparr> httpService_post := (\<lambda>rb. Resolved (Some unscoredResponse)) \<rparr>"
  have p: "httpService_post ?e (mkRequestBody ?e ''tok123'' (Some ''contact_form''))
      = Resolved (Some unscoredResponse)"
    by simp
  have tp: "tokenProperties unscoredResponse = Some exampleProperties"
    by (simp add: unscoredResponse_def)
  have v: "valid exampleProperties" and a: "action exampleProperties = ''contact_form''"
    by (simp_all add: exampleProperties_def)
  have n: "riskScore unscoredResponse = None"
    by (simp add: riskScore_def unscoredResponse_def)
  have m: "(0::real) < 0.5" by simp
  have rs: "reasonsOf unscoredResponse = None"
    by (simp add: reasonsOf_def unscoredResponse_def)
  from C9_missing_score_fails_closed [OF p tp v n m] a rs
  have "\<not> fst (verify ?e ''tok123'' (Some ''contact_form'') 0.5) \<and>
        consoleRecords (snd (verify ?e ''tok123'' (Some ''contact_form'') 0.5))
          = [ScoreTooLow 0 0.5 None]"
    by simp
  with p tp v n a show ?thesis by (simp add: truthy_def)
qed

subsection \<open>An omitted expected action\<close>

text \<open>
  Claim C10. When the expected action is omitted or empty (and the token is not
  empty), the request sent to the scoring service carries the expected action
  \<^verbatim>\<open>submit\<close>, and the action of the token is not compared: a valid token with a
  sufficient score yields true whatever action it was issued for.
\<close>

theorem C10_omitted_action_defaults_and_skips_check:
  assumes "expectedAction = None \<or> expectedAction = Some []"
      and "token \<noteq> []"
  shows "posts (snd (verify e token expectedAction minScore))
           = [\<lparr> event_token = token, event_siteKey = RECAPTCHA_SITE_KEY e,
                event_expectedAction = ''submit'' \<rparr>] \<and>
         (httpService_post e (mkRequestBody e token expectedAction) = Resolved (Some d) \<and>
          tokenProperties d = Some tp \<and> valid tp \<and> minScore \<le> scoreOf d \<longrightarrow>
            fst (verify e token expectedAction minScore))"
proof -
  have t: "\<not> truthy expectedAction"
    using assms(1) by (auto simp: truthy_def)
  have rb: "mkRequestBody e token expectedAction
      = \<lparr> event_token = token, event_siteKey = RECAPTCHA_SITE_KEY e,
          event_expectedAction = ''submit'' \<rparr>"
    using assms(1) by (auto simp: mkRequestBody_def defaultAction_def)
  have p: "posts (snd (verify e token expectedAction minScore))
      = [\<lparr> event_token = token, event_siteKey = RECAPTCHA_SITE_KEY e,
           event_expectedAction = ''submit'' \<rparr>]"
    using assms(2) rb by (simp add: posts_verify)
  have v: "fst (verify e token expectedAction minScore)"
    if "httpService_post e (mkRequestBody e token expectedAction) = Resolved (Some d)"
      and "tokenProperties d = Some tp" and "valid tp" and "minScore \<le> scoreOf d"
    using that t assms(2) by (simp add: fst_verify fst_checkResponse)
  from p v show ?thesis by blast
qed

theorem C10_witness:
  "''tok123'' \<noteq> [] \<and>
   httpService_post (exampleEnv\<lparr> httpService_post := (\<lambda>rb. Resolved (Some loginResponse)) \<rparr>)
     (mkRequestBody (exampleEnv\<lparr> httpService_post := (\<lambda>rb. Resolved (Some loginResponse)) \<rparr>)
        ''tok123'' None) = Resolved (Some loginResponse) \<and>
   map_option action (tokenProperties loginResponse) = Some ''login'' \<and>
   map_option valid (tokenProperties loginResponse) = Some True \<and>
   0.5 \<le> scoreOf loginResponse \<and>
   map event_expectedAction
     (posts (snd (verify (exampleEnv\<lparr> httpService_post := (\<lambda>rb. Resolved (Some loginResponse)) \<rparr>)
                    ''tok123'' None 0.5))) = [''submit''] \<and>
   fst (verify (exampleEnv\<lparr> httpService_post := (\<lambda>rb. Resolved (Some loginResponse)) \<rparr>)
          ''tok123'' None 0.5)"
proof -
  let ?e = "exampleEnv\<lparr> httpService_post := (\<lambda>rb. Resolved (Some loginResponse)) \<rparr>"
  let ?tp = "\<lparr> valid = True, invalidReason = None, hostname = ''x.com'', action = ''login'' \<rparr>"
  have o: "(None :: string option) = None \<or> None = Some []" by simp
  have ne: "''tok123'' \<noteq> []" by simp
  have p: "httpService_post ?e (mkRequestBody ?e ''tok123'' None) = Resolved (Some loginResponse)"
    by simp
  have tp: "tokenProperties loginResponse = Some ?tp"
    by (simp add: loginResponse_def)
  have v: "valid ?tp" by simp
  have sc: "0.5 \<le> scoreOf loginResponse"
    by (simp add: scoreOf_def riskScore_def loginResponse_def)
  from C10_omitted_action_defaults_and_skips_check
    [OF o ne, of ?e "0.5" loginResponse ?tp] p tp v sc
  have "map event_expectedAction (posts (snd (verify ?e ''tok123'' None 0.5))) = [''submit''] \<and>
        fst (verify ?e ''tok123'' None 0.5)"
    by simp
  with p tp sc show ?thesis by simp
qed

end
